theory Spec2Isabelle
  imports Main "HOL-Library.Sublist" "HOL-Library.List_Lexorder" "HOL-Library.Code_Target_Nat"
begin

section \<open>Strings as the page script sees them\<close>

text \<open>
  A JavaScript string is modelled as a \<^typ>\<open>string\<close>; each \<^typ>\<open>char\<close> stands for
  the code unit of the same number (0 to 255). \<open>String.prototype.trim\<close> and
  \<open>parseFloat\<close> strip the same set of white space and line terminators; in this range
  these are TAB, LF, VT, FF, CR, SPACE and NBSP.
\<close>

definition ws_chars :: "char list" where
  "ws_chars = [CHR 0x09, CHR 0x0A, CHR 0x0B, CHR 0x0C, CHR 0x0D, CHR 0x20, CHR 0xA0]"

definition is_ws :: "char \<Rightarrow> bool" where
  "is_ws c = (c \<in> set ws_chars)"

definition trim :: "string \<Rightarrow> string" where
  "trim s = rev (dropWhile is_ws (rev (dropWhile is_ws s)))"

fun starts_with :: "string \<Rightarrow> string \<Rightarrow> bool" where
  "starts_with s [] = True"
| "starts_with [] (c # cs) = False"
| "starts_with (d # ds) (c # cs) = (d = c \<and> starts_with ds cs)"

text \<open>\<open>s.includes(sub)\<close>: \<open>sub\<close> occurs in \<open>s\<close> as a contiguous, case-sensitive substring.\<close>

fun includes_str :: "string \<Rightarrow> string \<Rightarrow> bool" where
  "includes_str [] sub = (sub = [])"
| "includes_str (c # cs) sub = (starts_with (c # cs) sub \<or> includes_str cs sub)"

text \<open>\<open>valueText.replace(/,/g, '')\<close>\<close>

definition remove_commas :: "string \<Rightarrow> string" where
  "remove_commas s = filter (\<lambda>c. c \<noteq> CHR '','') s"

section \<open>Regular expressions\<close>

text \<open>
  The two patterns of the source are anchored with \<open>^\<close> and \<open>$\<close> and carry no flag, so
  \<open>regex.test(text)\<close> is a stateless test that the whole text belongs to the language of
  the pattern's body. The body is a term of \<open>regex\<close>; membership is decided with
  derivatives.
\<close>

datatype regex =
    Fail
  | Eps
  | OneOf "char list"
  | NoneOf "char list"
  | Seq regex regex
  | Alt regex regex
  | Star regex

definition Plus :: "regex \<Rightarrow> regex" where
  "Plus r = Seq r (Star r)"

definition Opt :: "regex \<Rightarrow> regex" where
  "Opt r = Alt r Eps"

fun Lit :: "string \<Rightarrow> regex" where
  "Lit [] = Eps"
| "Lit (c # cs) = Seq (OneOf [c]) (Lit cs)"

fun nullable :: "regex \<Rightarrow> bool" where
  "nullable Fail = False"
| "nullable Eps = True"
| "nullable (OneOf cs) = False"
| "nullable (NoneOf cs) = False"
| "nullable (Seq r s) = (nullable r \<and> nullable s)"
| "nullable (Alt r s) = (nullable r \<or> nullable s)"
| "nullable (Star r) = True"

fun deriv :: "char \<Rightarrow> regex \<Rightarrow> regex" where
  "deriv c Fail = Fail"
| "deriv c Eps = Fail"
| "deriv c (OneOf cs) = (if c \<in> set cs then Eps else Fail)"
| "deriv c (NoneOf cs) = (if c \<in> set cs then Fail else Eps)"
| "deriv c (Seq r s) =
     (if nullable r then Alt (Seq (deriv c r) s) (deriv c s) else Seq (deriv c r) s)"
| "deriv c (Alt r s) = Alt (deriv c r) (deriv c s)"
| "deriv c (Star r) = Seq (deriv c r) (Star r)"

fun regex_test :: "regex \<Rightarrow> string \<Rightarrow> bool" where
  "regex_test r [] = nullable r"
| "regex_test r (c # cs) = regex_test (deriv c r) cs"

text \<open>\<open>[0-9,.]\<close>, \<open>\s\<close> and \<open>.\<close> (any code unit but a line terminator).\<close>

definition num_chars :: regex where
  "num_chars = OneOf ''0123456789,.''"

definition space :: regex where
  "space = OneOf ws_chars"

definition any_char :: regex where
  "any_char = NoneOf [CHR 0x0A, CHR 0x0D]"

text \<open>\<open>/^[0-9,.]+\s+km2.*$/\<close>\<close>

definition areaRegex :: regex where
  "areaRegex = Seq (Plus num_chars) (Seq (Plus space) (Seq (Lit ''km2'') (Star any_char)))"

text \<open>\<open>/^[0-9,.]+(\s+\(.*\))?$/\<close>\<close>

definition populationRegex :: regex where
  "populationRegex =
     Seq (Plus num_chars)
       (Opt (Seq (Plus space) (Seq (Lit ''('') (Seq (Star any_char) (Lit '')'')))))"

section \<open>parseFloat and Number.prototype.toString\<close>

text \<open>
  \<open>parseFloat\<close> skips leading white space and reads the longest prefix that is a
  \<open>StrDecimalLiteral\<close>: an optional sign, then \<open>Infinity\<close> or decimal digits with an
  optional fraction and an optional exponent. With no such prefix the result is \<open>NaN\<close>.
  \<open>Decimal neg m e\<close> is the literal's mathematical value, plus or minus \<open>m * 10 ^ e\<close>.
\<close>

datatype jsnumber = NaN | Infinity bool | Decimal bool nat int

definition is_digit :: "char \<Rightarrow> bool" where
  "is_digit c = (c \<in> set ''0123456789'')"

definition digit_val :: "char \<Rightarrow> nat" where
  "digit_val c = length (takeWhile (\<lambda>d. d \<noteq> c) ''0123456789'')"

definition digits_val :: "string \<Rightarrow> nat" where
  "digits_val ds = foldl (\<lambda>n c. 10 * n + digit_val c) 0 ds"

text \<open>The exponent part: \<open>e\<close> or \<open>E\<close>, an optional sign and at least one digit; 0 when absent.\<close>

definition exponent_part :: "string \<Rightarrow> int" where
  "exponent_part s =
     (case s of
        [] \<Rightarrow> 0
      | c # r \<Rightarrow>
          if c = CHR ''e'' \<or> c = CHR ''E'' then
            (case r of
               [] \<Rightarrow> 0
             | d # r' \<Rightarrow>
                 if d = CHR ''-'' then - int (digits_val (takeWhile is_digit r'))
                 else if d = CHR ''+'' then int (digits_val (takeWhile is_digit r'))
                 else int (digits_val (takeWhile is_digit r)))
          else 0)"

definition unsigned_literal :: "bool \<Rightarrow> string \<Rightarrow> jsnumber" where
  "unsigned_literal neg u =
     (if starts_with u ''Infinity'' then Infinity neg
      else
        let ip = takeWhile is_digit u;
            r1 = dropWhile is_digit u;
            has_dot = (case r1 of [] \<Rightarrow> False | c # _ \<Rightarrow> c = CHR ''.'');
            fp = (if has_dot then takeWhile is_digit (tl r1) else []);
            r2 = (if has_dot then dropWhile is_digit (tl r1) else r1)
        in if ip = [] \<and> fp = [] then NaN
           else Decimal neg (digits_val (ip @ fp)) (exponent_part r2 - int (length fp)))"

definition parseFloat :: "string \<Rightarrow> jsnumber" where
  "parseFloat s =
     (case dropWhile is_ws s of
        [] \<Rightarrow> NaN
      | c # r \<Rightarrow>
          if c = CHR ''-'' then unsigned_literal True r
          else if c = CHR ''+'' then unsigned_literal False r
          else unsigned_literal False (c # r))"

function show_nat :: "nat \<Rightarrow> string" where
  "show_nat n =
     (if n < 10 then [''0123456789'' ! n]
      else show_nat (n div 10) @ [''0123456789'' ! (n mod 10)])"
  by pat_completeness auto
termination
  by (relation "measure id") auto

declare show_nat.simps [simp del]

text \<open>
  An integer of magnitude at most \<open>2 ^ 53\<close> is a binary64 value, the literal is read
  without rounding, and \<open>toString\<close> prints its decimal digits (zero prints as \<open>0\<close>
  whatever its sign). Every other finite literal is rounded to binary64 and printed with
  the shortest digits that read back; that conversion belongs to the engine and is the
  parameter \<open>fmt\<close>.
\<close>

definition numberToString :: "(bool \<Rightarrow> nat \<Rightarrow> int \<Rightarrow> string) \<Rightarrow> jsnumber \<Rightarrow> string" where
  "numberToString fmt v =
     (case v of
        NaN \<Rightarrow> ''NaN''
      | Infinity neg \<Rightarrow> (if neg then ''-Infinity'' else ''Infinity'')
      | Decimal neg m e \<Rightarrow>
          let whole = (0 \<le> e \<or> m mod 10 ^ nat (- e) = 0);
              n = (if 0 \<le> e then m * 10 ^ nat e else m div 10 ^ nat (- e))
          in if whole \<and> n \<le> 2 ^ 53 then
               (if n = 0 then ''0'' else (if neg then ''-'' else '''') @ show_nat n)
             else fmt neg m e)"

section \<open>Documents\<close>

text \<open>
  A document is the tree of its root element. An element carries its tag name (lower
  case), its class list, the string properties the browser computes for it
  (\<open>innerText\<close>, and \<open>href\<close> and \<open>src\<close> as absolute URLs) and its child nodes. An
  element of the document is referred to by its path, the child indices from the root, so
  that two elements with the same content stay distinct.
\<close>

datatype node =
    Text string
  | Element string "string list" "(string \<times> string) list" "node list"

type_synonym path = "nat list"

fun is_element :: "node \<Rightarrow> bool" where
  "is_element (Text s) = False"
| "is_element (Element t cl ps ks) = True"

fun node_at :: "node \<Rightarrow> path \<Rightarrow> node option" where
  "node_at n [] = Some n"
| "node_at (Text s) (i # p) = None"
| "node_at (Element t cl ps ks) (i # p) = (if i < length ks then node_at (ks ! i) p else None)"

text \<open>The paths of all elements of a tree, in document order (preorder).\<close>

fun elems :: "node \<Rightarrow> path list"
  and elems_from :: "nat \<Rightarrow> node list \<Rightarrow> path list" where
  "elems (Text s) = []"
| "elems (Element t cl ps ks) = [] # elems_from 0 ks"
| "elems_from i [] = []"
| "elems_from i (k # ks) = map ((#) i) (elems k) @ elems_from (Suc i) ks"

fun textContent :: "node \<Rightarrow> string" where
  "textContent (Text s) = s"
| "textContent (Element t cl ps ks) = concat (map textContent ks)"

definition textContent_at :: "node \<Rightarrow> path \<Rightarrow> string" where
  "textContent_at doc p = (case node_at doc p of Some n \<Rightarrow> textContent n | None \<Rightarrow> [])"

definition classList_contains :: "node \<Rightarrow> path \<Rightarrow> string \<Rightarrow> bool" where
  "classList_contains doc p c =
     (case node_at doc p of Some (Element t cl ps ks) \<Rightarrow> c \<in> set cl | _ \<Rightarrow> False)"

text \<open>A string property of an element; an element without it reads as the empty string.\<close>

definition property :: "string \<Rightarrow> node \<Rightarrow> path \<Rightarrow> string" where
  "property name doc p =
     (case node_at doc p of
        Some (Element t cl ps ks) \<Rightarrow> (case map_of ps name of Some v \<Rightarrow> v | None \<Rightarrow> [])
      | _ \<Rightarrow> [])"

text \<open>
  \<open>parentElement\<close> of an element that is not the root. The source reads it only from
  header cells selected below an ancestor, which are never the root.
\<close>

definition parentElement :: "path \<Rightarrow> path" where
  "parentElement p = butlast p"

fun find_element :: "nat \<Rightarrow> node list \<Rightarrow> nat option" where
  "find_element i [] = None"
| "find_element i (k # ks) = (if is_element k then Some i else find_element (Suc i) ks)"

text \<open>\<open>nextElementSibling\<close>: the next sibling that is an element, or null.\<close>

definition nextElementSibling :: "node \<Rightarrow> path \<Rightarrow> path option" where
  "nextElementSibling doc p =
     (if p = [] then None
      else case node_at doc (butlast p) of
             Some (Element t cl ps ks) \<Rightarrow>
               map_option (\<lambda>j. butlast p @ [j])
                 (find_element (Suc (last p)) (drop (Suc (last p)) ks))
           | _ \<Rightarrow> None)"

subsection \<open>Selectors\<close>

datatype simple = Tag string | Cls string | NthChild nat

datatype selector =
    Sel "simple list"
  | Desc selector "simple list"
  | Child selector "simple list"

fun matches_simple :: "node \<Rightarrow> path \<Rightarrow> simple \<Rightarrow> bool" where
  "matches_simple doc p (Tag t) =
     (case node_at doc p of Some (Element t' cl ps ks) \<Rightarrow> t' = t | _ \<Rightarrow> False)"
| "matches_simple doc p (Cls c) = classList_contains doc p c"
| "matches_simple doc p (NthChild n) =
     (if p = [] then n = 1
      else case node_at doc (butlast p) of
             Some (Element t cl ps ks) \<Rightarrow>
               length (filter is_element (take (Suc (last p)) ks)) = n
           | _ \<Rightarrow> False)"

text \<open>
  \<open>Desc s c\<close> is the descendant combinator \<open>s c\<close>: some proper ancestor matches \<open>s\<close>.
  \<open>Child s c\<close> is \<open>s > c\<close>: the parent matches \<open>s\<close>.
\<close>

fun matches :: "node \<Rightarrow> selector \<Rightarrow> path \<Rightarrow> bool" where
  "matches doc (Sel c) p = list_all (matches_simple doc p) c"
| "matches doc (Desc s c) p =
     (list_all (matches_simple doc p) c \<and>
      list_ex (\<lambda>n. matches doc s (take n p)) [0..<length p])"
| "matches doc (Child s c) p =
     (list_all (matches_simple doc p) c \<and> p \<noteq> [] \<and> matches doc s (butlast p))"

definition querySelectorAll :: "node \<Rightarrow> selector \<Rightarrow> path list" where
  "querySelectorAll doc sel = filter (matches doc sel) (elems doc)"

definition querySelector :: "node \<Rightarrow> selector \<Rightarrow> path option" where
  "querySelector doc sel = (case querySelectorAll doc sel of [] \<Rightarrow> None | p # _ \<Rightarrow> Some p)"

text \<open>
  \<open>el.querySelectorAll(sel)\<close>: the descendants of \<open>el\<close> that match; the selector is
  still matched against the whole document.
\<close>

definition is_descendant :: "path \<Rightarrow> path \<Rightarrow> bool" where
  "is_descendant el p = (length el < length p \<and> take (length el) p = el)"

definition querySelectorAll_in :: "node \<Rightarrow> path \<Rightarrow> selector \<Rightarrow> path list" where
  "querySelectorAll_in doc el sel =
     filter (\<lambda>p. is_descendant el p \<and> matches doc sel p) (elems doc)"

definition querySelector_in :: "node \<Rightarrow> path \<Rightarrow> selector \<Rightarrow> path option" where
  "querySelector_in doc el sel =
     (case querySelectorAll_in doc el sel of [] \<Rightarrow> None | p # _ \<Rightarrow> Some p)"

section \<open>The scraper\<close>

record Country =
  countryName :: string
  countryUrl :: string

record City =
  cityName :: string
  cityUrl :: string
  country :: "string option"

record CityDetails =
  name :: string
  url :: string
  country :: "string option"
  area :: "string option"
  population :: "string option"
  flagIconPath :: "string option"

subsection \<open>Scripts evaluated in the page\<close>

text \<open>\<open>table.wikitable tbody tr td:nth-child(2) > a\<close>\<close>

definition countries :: "node \<Rightarrow> Country list" where
  "countries doc =
     map (\<lambda>a. \<lparr>countryName = property ''innerText'' doc a, countryUrl = property ''href'' doc a\<rparr>)
       (querySelectorAll doc
          (Child
             (Desc (Desc (Desc (Sel [Tag ''table'', Cls ''wikitable'']) [Tag ''tbody''])
                [Tag ''tr'']) [Tag ''td'', NthChild 2])
             [Tag ''a'']))"

text \<open>
  The rows of \<open>.infobox.ib-country.vcard tr\<close> whose text contains \<open>Capital\<close>, each
  mapped to its first \<open>.infobox-data a\<close> or null; then the first link that is not null.
\<close>

definition capitalRows :: "node \<Rightarrow> path list" where
  "capitalRows doc =
     filter (\<lambda>tr. includes_str (textContent_at doc tr) ''Capital'')
       (querySelectorAll doc
          (Desc (Sel [Cls ''infobox'', Cls ''ib-country'', Cls ''vcard'']) [Tag ''tr'']))"

definition rowLink :: "node \<Rightarrow> path \<Rightarrow> path option" where
  "rowLink doc tr = querySelector_in doc tr (Desc (Sel [Cls ''infobox-data'']) [Tag ''a''])"

definition capitalCityLink :: "node \<Rightarrow> path option" where
  "capitalCityLink doc =
     (case find (\<lambda>link. link \<noteq> None) (map (rowLink doc) (capitalRows doc))
      of Some link \<Rightarrow> link | None \<Rightarrow> None)"

definition capitalCity :: "node \<Rightarrow> City option" where
  "capitalCity doc =
     (case capitalCityLink doc of
        Some a \<Rightarrow>
          Some \<lparr>cityName = property ''innerText'' doc a, cityUrl = property ''href'' doc a,
                City.country = None\<rparr>
      | None \<Rightarrow> None)"

text \<open>
  The \<open>while\<close> loop of \<open>getValueByLabel\<close>: from \<open>currentRow\<close> on, collect sibling
  elements until one carries the class \<open>mergedtoprow\<close> or none is left.
\<close>

definition sibling_budget :: "node \<Rightarrow> path option \<Rightarrow> nat" where
  "sibling_budget doc cur =
     (case cur of
        None \<Rightarrow> 0
      | Some p \<Rightarrow>
          (case node_at doc (butlast p) of
             Some (Element t cl ps ks) \<Rightarrow> Suc (length ks - last p)
           | _ \<Rightarrow> Suc 0))"

function nextRows :: "node \<Rightarrow> path option \<Rightarrow> path list" where
  "nextRows doc None = []"
| "nextRows doc (Some currentRow) =
     (if classList_contains doc currentRow ''mergedtoprow'' then []
      else currentRow # nextRows doc (nextElementSibling doc currentRow))"
  by pat_completeness auto
termination
proof (relation "measure (\<lambda>(doc, cur). sibling_budget doc cur)")
  show "wf (measure (\<lambda>(doc, cur). sibling_budget doc cur))"
    by simp
next
  fix doc :: node and currentRow :: path
  have bounds: "find_element i ks = Some j \<Longrightarrow> i \<le> j \<and> j < i + length ks" for i ks j
    by (induction i ks rule: find_element.induct) (auto split: if_splits)
  have "sibling_budget doc (nextElementSibling doc currentRow)
          < sibling_budget doc (Some currentRow)"
  proof (cases "nextElementSibling doc currentRow")
    case None
    then show ?thesis
      by (simp add: sibling_budget_def split: option.splits node.splits)
  next
    case (Some q)
    then obtain t cl ps ks j
      where par: "node_at doc (butlast currentRow) = Some (Element t cl ps ks)"
        and j: "find_element (Suc (last currentRow)) (drop (Suc (last currentRow)) ks) = Some j"
        and q: "q = butlast currentRow @ [j]"
      by (auto simp: nextElementSibling_def split: if_splits option.splits node.splits)
    from bounds [OF j] have "last currentRow < j" "j < length ks"
      by auto
    with par q Some show ?thesis
      by (simp add: sibling_budget_def)
  qed
  then show "((doc, nextElementSibling doc currentRow), (doc, Some currentRow))
               \<in> measure (\<lambda>(doc, cur). sibling_budget doc cur)"
    by simp
qed

text \<open>
  The variable \<open>rows\<close>: the header cells \<open>.mergedtoprow th\<close> whose text contains the
  label, each mapped to its parent row, and the reduction that appends each row followed
  by its \<open>nextRows\<close>.
\<close>

definition headerCells :: "node \<Rightarrow> path list" where
  "headerCells doc = querySelectorAll doc (Desc (Sel [Cls ''mergedtoprow'']) [Tag ''th''])"

definition labelRows :: "node \<Rightarrow> string \<Rightarrow> path list" where
  "labelRows doc label =
     foldl (\<lambda>acc row. acc @ (row # nextRows doc (nextElementSibling doc row))) []
       (map parentElement
          (filter (\<lambda>th. includes_str (textContent_at doc th) label) (headerCells doc)))"

text \<open>\<open>rows.map(row => Array.from(row.querySelectorAll('td'))).flat()\<close>\<close>

definition labelCells :: "node \<Rightarrow> string \<Rightarrow> path list" where
  "labelCells doc label =
     concat (map (\<lambda>row. querySelectorAll_in doc row (Sel [Tag ''td''])) (labelRows doc label))"

text \<open>
  \<open>getValueByLabel(label, regex)\<close>; the pattern is given by its test, a predicate on
  the text, as both callers pass a pattern without flags.
\<close>

definition getValueByLabel ::
  "(bool \<Rightarrow> nat \<Rightarrow> int \<Rightarrow> string) \<Rightarrow> node \<Rightarrow> string \<Rightarrow> (string \<Rightarrow> bool) \<Rightarrow> string option" where
  "getValueByLabel fmt doc label regex =
     (let values = filter (\<lambda>td. regex (trim (textContent_at doc td))) (labelCells doc label);
          valueText = (case values of [] \<Rightarrow> [] | td # _ \<Rightarrow> trim (textContent_at doc td));
          value = (if valueText \<noteq> [] then Some (parseFloat (remove_commas valueText)) else None)
      in map_option (numberToString fmt) value)"

definition getArea :: "(bool \<Rightarrow> nat \<Rightarrow> int \<Rightarrow> string) \<Rightarrow> node \<Rightarrow> string option" where
  "getArea fmt doc = getValueByLabel fmt doc ''Area'' (regex_test areaRegex)"

definition getPopulation :: "(bool \<Rightarrow> nat \<Rightarrow> int \<Rightarrow> string) \<Rightarrow> node \<Rightarrow> string option" where
  "getPopulation fmt doc = getValueByLabel fmt doc ''Population'' (regex_test populationRegex)"

text \<open>
  \<open>.infobox.ib-settlement.vcard .infobox-full-data.maptable a img.mw-file-element\<close>,
  read with \<open>?.src\<close>.
\<close>

definition flagIcon :: "node \<Rightarrow> path option" where
  "flagIcon doc =
     querySelector doc
       (Desc
          (Desc
             (Desc (Sel [Cls ''infobox'', Cls ''ib-settlement'', Cls ''vcard''])
                [Cls ''infobox-full-data'', Cls ''maptable''])
             [Tag ''a''])
          [Tag ''img'', Cls ''mw-file-element''])"

text \<open>The object \<open>{flagIconPath, area, population}\<close> the page script returns.\<close>

definition capitalCityDetails ::
  "(bool \<Rightarrow> nat \<Rightarrow> int \<Rightarrow> string) \<Rightarrow> node \<Rightarrow> string option \<times> string option \<times> string option" where
  "capitalCityDetails fmt doc =
     (map_option (property ''src'' doc) (flagIcon doc), getArea fmt doc, getPopulation fmt doc)"

subsection \<open>Navigation and the traversal\<close>

text \<open>
  The document source is a function from URLs to documents; \<open>None\<close> is a navigation
  that fails, which makes \<open>page.goto\<close> throw. The scraper object holds its browser and
  its page; a page is modelled by the document it shows. A method returns its outcome
  (\<open>Inl\<close> for a thrown error) together with the scraper's new state. Launching the
  browser and opening a page are taken to succeed; \<open>close\<close> is not part of the
  traversal. After a navigation that fails the page shows the browser's error page for
  the URL, a document without tables or links.
\<close>

type_synonym web = "string \<Rightarrow> node option"

datatype error = PageNotInitialized | NavigationFailed string | NullReference

record scraper =
  browser :: "unit option"
  page :: "node option"

definition startUrl :: string where
  "startUrl = ''https://en.wikipedia.org/wiki/List_of_European_countries_by_area''"

definition blank_page :: node where
  "blank_page = Element ''html'' [] [] [Element ''head'' [] [] [], Element ''body'' [] [] []]"

definition error_page :: "string \<Rightarrow> node" where
  "error_page u =
     Element ''html'' [] []
       [Element ''head'' [] [] [],
        Element ''body'' [''neterror''] []
          [Element ''div'' [''interstitial-wrapper''] [] [Text u]]]"

definition goto :: "web \<Rightarrow> scraper \<Rightarrow> string \<Rightarrow> (error + unit) \<times> scraper" where
  "goto web s u =
     (case page s of
        None \<Rightarrow> (Inl NullReference, s)
      | Some old \<Rightarrow>
          (case web u of
             None \<Rightarrow> (Inl (NavigationFailed u), s\<lparr>page := Some (error_page u)\<rparr>)
           | Some doc \<Rightarrow> (Inr (), s\<lparr>page := Some doc\<rparr>)))"


definition scrapeCityDetails ::
  "(bool \<Rightarrow> nat \<Rightarrow> int \<Rightarrow> string) \<Rightarrow> web \<Rightarrow> scraper \<Rightarrow> City option \<Rightarrow> Country \<Rightarrow>
     (error + CityDetails list option) \<times> scraper" where
  "scrapeCityDetails fmt web s capital c =
     (if page s = None then (Inl PageNotInitialized, s)
      else
        (case capital of
           None \<Rightarrow> (Inr (if 0 < length ([] :: CityDetails list) then Some [] else None), s)
         | Some city \<Rightarrow>
             (case goto web s (cityUrl city) of
                (Inl e, s') \<Rightarrow> (Inl e, s')
              | (Inr u, s') \<Rightarrow>
                  (case page s' of
                     None \<Rightarrow> (Inl NullReference, s')
                   | Some doc \<Rightarrow>
                       (case capitalCityDetails fmt doc of
                          (flag, ar, pop) \<Rightarrow>
                            let citiesDetailsList =
                                  [] @ [\<lparr>name = cityName city, url = cityUrl city,
                                         country = Some (countryName c), area = ar,
                                         population = pop, flagIconPath = flag\<rparr>]
                            in (Inr (if 0 < length citiesDetailsList
                                     then Some citiesDetailsList else None), s'))))))"

text \<open>The \<open>for\<close> loop of \<open>scrapeCountries\<close>, with the list accumulated so far.\<close>

fun countries_loop ::
  "(bool \<Rightarrow> nat \<Rightarrow> int \<Rightarrow> string) \<Rightarrow> web \<Rightarrow> Country list \<Rightarrow> CityDetails list \<Rightarrow> scraper \<Rightarrow>
     (error + CityDetails list) \<times> scraper" where
  "countries_loop fmt web [] citiesDetailsList s = (Inr citiesDetailsList, s)"
| "countries_loop fmt web (c # cs) citiesDetailsList s =
     (case goto web s (countryUrl c) of
        (Inl e, s1) \<Rightarrow> (Inl e, s1)
      | (Inr u, s1) \<Rightarrow>
          (case page s1 of
             None \<Rightarrow> (Inl NullReference, s1)
           | Some doc \<Rightarrow>
               (case capitalCity doc of
                  None \<Rightarrow> countries_loop fmt web cs citiesDetailsList s1
                | Some city \<Rightarrow>
                    (case scrapeCityDetails fmt web s1 (Some city) c of
                       (Inl e, s2) \<Rightarrow> (Inl e, s2)
                     | (Inr None, s2) \<Rightarrow> countries_loop fmt web cs citiesDetailsList s2
                     | (Inr (Some cityDetails), s2) \<Rightarrow>
                         countries_loop fmt web cs (citiesDetailsList @ cityDetails) s2))))"

definition scrapeCountries ::
  "(bool \<Rightarrow> nat \<Rightarrow> int \<Rightarrow> string) \<Rightarrow> web \<Rightarrow> scraper \<Rightarrow> (error + CityDetails list) \<times> scraper" where
  "scrapeCountries fmt web s =
     (case page s of
        None \<Rightarrow> (Inl PageNotInitialized, s)
      | Some doc \<Rightarrow> countries_loop fmt web (countries doc) [] s)"


definition new_scraper :: scraper where
  "new_scraper = \<lparr>browser = None, page = None\<rparr>"

section \<open>Blocks, as the specification describes them\<close>

text \<open>
  The element siblings that follow an element, in order, and the block of a header row:
  the row itself, then its following siblings up to, and not including, the first one
  of class \<open>mergedtoprow\<close>.
\<close>

definition followingSiblings :: "node \<Rightarrow> path \<Rightarrow> path list" where
  "followingSiblings doc p =
     (if p = [] then []
      else case node_at doc (butlast p) of
             Some (Element t cl ps ks) \<Rightarrow>
               map (\<lambda>j. butlast p @ [j])
                 (filter (\<lambda>j. is_element (ks ! j)) [Suc (last p)..<length ks])
           | _ \<Rightarrow> [])"

definition block :: "node \<Rightarrow> path \<Rightarrow> path list" where
  "block doc row =
     row # takeWhile (\<lambda>r. \<not> classList_contains doc r ''mergedtoprow'') (followingSiblings doc row)"

section \<open>Example documents\<close>

definition example_fmt :: "bool \<Rightarrow> nat \<Rightarrow> int \<Rightarrow> string" where
  "example_fmt neg m e = ''inexact''"

text \<open>
  A capital's page: a flag, an area block and a population block whose second and third
  cells both match the population pattern, then a further section.
\<close>

definition city_page :: node where
  "city_page =
     Element ''html'' [] []
       [Element ''table'' [''infobox'', ''ib-settlement'', ''vcard''] []
          [Element ''tr'' [''mergedtoprow''] []
             [Element ''td'' [''infobox-full-data'', ''maptable''] []
                [Element ''a'' [] [(''href'', ''https://example.org/flag'')]
                   [Element ''img'' [''mw-file-element'']
                      [(''src'', ''https://example.org/flag.png'')] []]]],
           Element ''tr'' [''mergedtoprow''] [] [Element ''th'' [] [] [Text ''Area'']],
           Text [CHR 0x0A],
           Element ''tr'' [''mergedrow''] []
             [Element ''th'' [] [] [Text ''Total''],
              Element ''td'' [] [] [Text ''357,021 km2 (137,847 sq mi)'']],
           Element ''tr'' [''mergedtoprow''] [] [Element ''th'' [] [] [Text ''Population'']],
           Element ''tr'' [''mergedrow''] []
             [Element ''th'' [] [] [Text ''Rank''],
              Element ''td'' [] [] [Text ''2nd in Europe'']],
           Element ''tr'' [''mergedrow''] []
             [Element ''th'' [] [] [Text ''Total''],
              Element ''td'' [] [] [Text '' 83,166,711 (2021 estimate) '']],
           Element ''tr'' [''mergedrow''] []
             [Element ''th'' [] [] [Text ''Urban''],
              Element ''td'' [] [] [Text ''1,234,567'']],
           Element ''tr'' [''mergedtoprow''] []
             [Element ''th'' [] [] [Text ''Time zone''],
              Element ''td'' [] [] [Text ''1'']]]]"

text \<open>A page whose only population cell is \<open>1,234,567\<close>.\<close>

definition town_page :: node where
  "town_page =
     Element ''html'' [] []
       [Element ''table'' [''infobox''] []
          [Element ''tr'' [''mergedtoprow''] []
             [Element ''th'' [] [] [Text ''Population''],
              Element ''td'' [] [] [Text ''1,234,567'']]]]"

text \<open>A page whose population cell holds dots only.\<close>

definition dots_page :: node where
  "dots_page =
     Element ''html'' [] []
       [Element ''table'' [''infobox''] []
          [Element ''tr'' [''mergedtoprow''] [] [Element ''th'' [] [] [Text ''Population'']],
           Element ''tr'' [''mergedrow''] []
             [Element ''th'' [] [] [Text ''Total''],
              Element ''td'' [] [] [Text ''...'']]]]"

text \<open>
  A page whose area header row holds a cell, then a nested table with an area header row
  of its own, then the header cell.
\<close>

definition nested_page :: node where
  "nested_page =
     Element ''html'' [] []
       [Element ''table'' [''infobox''] []
          [Element ''tr'' [''mergedtoprow''] []
             [Element ''td'' [] [] [Text ''5 km2''],
              Element ''td'' [] []
                [Element ''table'' [] []
                   [Element ''tr'' [''mergedtoprow''] []
                      [Element ''th'' [] [] [Text ''Area''],
                       Element ''td'' [] [] [Text ''7 km2'']]]],
              Element ''th'' [] [] [Text ''Area'']]]]"

text \<open>
  A country page with two rows that contain \<open>Capital\<close>: the first has no link, the
  second links to the capital.
\<close>

definition two_capitals_page :: node where
  "two_capitals_page =
     Element ''html'' [] []
       [Element ''table'' [''infobox'', ''ib-country'', ''vcard''] []
          [Element ''tr'' [] []
             [Element ''th'' [] [] [Text ''Capital (de jure)''],
              Element ''td'' [''infobox-data''] [] [Text ''None'']],
           Element ''tr'' [] []
             [Element ''th'' [] [] [Text ''Capital (de facto)''],
              Element ''td'' [''infobox-data''] []
                [Element ''a'' [] [(''innerText'', ''Bern''), (''href'', ''u:bern'')]
                   [Text ''Bern'']]]]]"

text \<open>A list of two countries; the first country's page names no capital.\<close>

definition list_page :: node where
  "list_page =
     Element ''html'' [] []
       [Element ''table'' [''wikitable''] []
          [Element ''tbody'' [] []
             [Element ''tr'' [] []
                [Element ''td'' [] [] [Text ''1''],
                 Element ''td'' [] []
                   [Element ''a'' [] [(''innerText'', ''Atlantis''), (''href'', ''u:atlantis'')]
                      [Text ''Atlantis'']]],
              Element ''tr'' [] []
                [Element ''td'' [] [] [Text ''2''],
                 Element ''td'' [] []
                   [Element ''a'' [] [(''innerText'', ''Germany''), (''href'', ''u:germany'')]
                      [Text ''Germany'']]]]]]"

definition atlantis_page :: node where
  "atlantis_page =
     Element ''html'' [] []
       [Element ''table'' [''infobox'', ''ib-country'', ''vcard''] []
          [Element ''tr'' [] []
             [Element ''th'' [] [] [Text ''Motto''],
              Element ''td'' [''infobox-data''] [] [Text ''None'']]]]"

definition germany_page :: node where
  "germany_page =
     Element ''html'' [] []
       [Element ''table'' [''infobox'', ''ib-country'', ''vcard''] []
          [Element ''tr'' [] []
             [Element ''th'' [] [] [Text ''Capital''],
              Element ''td'' [''infobox-data''] []
                [Element ''a'' [] [(''innerText'', ''Berlin''), (''href'', ''u:berlin'')]
                   [Text ''Berlin'']]]]]"

definition example_web :: web where
  "example_web u =
     (if u = startUrl then Some list_page
      else if u = ''u:atlantis'' then Some atlantis_page
      else if u = ''u:germany'' then Some germany_page
      else if u = ''u:berlin'' then Some city_page
      else if u = ''u:blank'' then Some blank_page
      else None)"

definition ready_scraper :: scraper where
  "ready_scraper = \<lparr>browser = Some (), page = Some list_page\<rparr>"

section \<open>Auxiliary facts\<close>

lemma first_of_filter:
  "(case filter P xs of [] \<Rightarrow> a | x # _ \<Rightarrow> f x) = (case find P xs of None \<Rightarrow> a | Some x \<Rightarrow> f x)"
  by (induction xs) auto

lemma find_first_split:
  "xs = pre @ x # post \<Longrightarrow> \<forall>y\<in>set pre. \<not> P y \<Longrightarrow> P x \<Longrightarrow> find P xs = Some x"
  by (induction pre arbitrary: xs) auto

lemma foldl_append_concat:
  "foldl (\<lambda>acc x. acc @ f x) a xs = a @ concat (map f xs)"
  by (induction xs arbitrary: a) simp_all

text \<open>\<open>includes_str\<close> is the contiguous-sublist relation.\<close>

lemma starts_with_prefix: "starts_with s sub = prefix sub s"
  by (induction s sub rule: starts_with.induct) auto

lemma includes_str_sublist: "includes_str s sub = sublist sub s"
  by (induction s) (auto simp: starts_with_prefix sublist_Cons_right)

text \<open>The value of \<open>getValueByLabel\<close> in terms of the first matching cell.\<close>

lemma getValueByLabel_find:
  "getValueByLabel fmt doc label regex =
     (case find (\<lambda>td. regex (trim (textContent_at doc td))) (labelCells doc label) of
        None \<Rightarrow> None
      | Some td \<Rightarrow>
          if trim (textContent_at doc td) = [] then None
          else Some (numberToString fmt (parseFloat (remove_commas (trim (textContent_at doc td))))))"
proof -
  let ?P = "\<lambda>td. regex (trim (textContent_at doc td))"
  have "(case filter ?P (labelCells doc label) of [] \<Rightarrow> [] | td # _ \<Rightarrow> trim (textContent_at doc td))
        = (case find ?P (labelCells doc label) of None \<Rightarrow> [] | Some td \<Rightarrow> trim (textContent_at doc td))"
    by (rule first_of_filter)
  then show ?thesis
    by (simp add: getValueByLabel_def Let_def split: option.splits)
qed

text \<open>A selected header cell lies below an ancestor, so it has a parent element.\<close>

lemma headerCells_not_root: "th \<in> set (headerCells doc) \<Longrightarrow> th \<noteq> []"
  by (auto simp: headerCells_def querySelectorAll_def)

subsection \<open>The sibling walk\<close>

lemma find_element_drop:
  "i < length ks \<Longrightarrow>
     find_element i (drop i ks) =
       (if is_element (ks ! i) then Some i else find_element (Suc i) (drop (Suc i) ks))"
  by (simp add: Cons_nth_drop_Suc [symmetric])

lemma nextElementSibling_child:
  "node_at doc q = Some (Element t cl ps ks) \<Longrightarrow>
     nextElementSibling doc (q @ [i]) =
       map_option (\<lambda>j. q @ [j]) (find_element (Suc i) (drop (Suc i) ks))"
  by (simp add: nextElementSibling_def)

lemma nextRows_from:
  assumes par: "node_at doc q = Some (Element t cl ps ks)"
  shows "nextRows doc (map_option (\<lambda>j. q @ [j]) (find_element i (drop i ks))) =
           takeWhile (\<lambda>r. \<not> classList_contains doc r ''mergedtoprow'')
             (map (\<lambda>j. q @ [j]) (filter (\<lambda>j. is_element (ks ! j)) [i..<length ks]))"
proof (induction "length ks - i" arbitrary: i)
  case 0
  then show ?case by simp
next
  case (Suc n)
  then have lt: "i < length ks" and n: "n = length ks - Suc i"
    by auto
  have up: "[i..<length ks] = i # [Suc i..<length ks]"
    using lt by (simp add: upt_conv_Cons)
  show ?case
  proof (cases "is_element (ks ! i)")
    case True
    then show ?thesis
      using lt Suc.hyps(1) [OF n] par
      by (simp add: find_element_drop up nextElementSibling_child)
  next
    case False
    then show ?thesis
      using lt Suc.hyps(1) [OF n]
      by (simp add: find_element_drop up)
  qed
qed

lemma nextRows_followingSiblings:
  "nextRows doc (nextElementSibling doc p) =
     takeWhile (\<lambda>r. \<not> classList_contains doc r ''mergedtoprow'') (followingSiblings doc p)"
proof (cases "p = []")
  case True
  then show ?thesis
    by (simp add: nextElementSibling_def followingSiblings_def)
next
  case False
  show ?thesis
  proof (cases "node_at doc (butlast p)")
    case None
    with False show ?thesis
      by (simp add: nextElementSibling_def followingSiblings_def)
  next
    case (Some n)
    show ?thesis
    proof (cases n)
      case (Text x)
      with Some False show ?thesis
        by (simp add: nextElementSibling_def followingSiblings_def)
    next
      case (Element t cl ps ks)
      with Some have par: "node_at doc (butlast p) = Some (Element t cl ps ks)"
        by simp
      from nextRows_from [OF par, of "Suc (last p)"] par False show ?thesis
        by (simp add: nextElementSibling_def followingSiblings_def)
    qed
  qed
qed

subsection \<open>Document order\<close>

text \<open>
  \<open>elems\<close> lists the paths in strictly increasing lexicographic order, and the cells of
  the rows of one block, which are siblings with increasing indices, come in that order.
\<close>

lemma concat_map_concat:
  "concat (map f (concat xss)) = concat (map (\<lambda>xs. concat (map f xs)) xss)"
  by (induction xss) simp_all

lemma elems_sorted_aux:
  "sorted_wrt (<) (elems n)"
  "sorted_wrt (<) (elems_from i ks) \<and> (\<forall>p\<in>set (elems_from i ks). \<exists>j r. p = j # r \<and> i \<le> j)"
proof (induction n and i ks rule: elems_elems_from.induct)
  case (1 s)
  then show ?case by simp
next
  case (2 t cl ps ks)
  then show ?case by auto
next
  case (3 i)
  then show ?case by simp
next
  case (4 i k ks)
  have "sorted_wrt (<) (map ((#) i) (elems k))"
    using 4 by (simp add: sorted_wrt_map)
  with 4 show ?case
    by (fastforce simp: sorted_wrt_append)
qed

lemma elems_sorted: "sorted_wrt (<) (elems n)"
  by (rule elems_sorted_aux)

lemma append_less_cancel: "u @ x < u @ y \<longleftrightarrow> x < (y :: nat list)"
  by (induction u) auto

lemma descendants_of_siblings_less:
  assumes "is_descendant (q @ [i]) p1" "is_descendant (q @ [j]) p2" "i < j"
  shows "p1 < p2"
proof -
  from assms(1) have "p1 = (q @ [i]) @ drop (length (q @ [i])) p1"
    by (metis append_take_drop_id is_descendant_def)
  moreover from assms(2) have "p2 = (q @ [j]) @ drop (length (q @ [j])) p2"
    by (metis append_take_drop_id is_descendant_def)
  ultimately obtain r1 r2 where "p1 = q @ i # r1" "p2 = q @ j # r2"
    by (metis append.assoc append_Cons append_Nil)
  with assms(3) show ?thesis
    by (simp add: append_less_cancel)
qed

lemma sibling_cells_sorted:
  "sorted_wrt (<) js \<Longrightarrow>
     sorted_wrt (<)
       (concat (map (\<lambda>row. filter (\<lambda>p. is_descendant row p \<and> M p) (elems doc))
                  (map (\<lambda>j. q @ [j]) js)))"
proof (induction js)
  case Nil
  then show ?case by simp
next
  case (Cons j js)
  have here: "sorted_wrt (<) (filter (\<lambda>p. is_descendant (q @ [j]) p \<and> M p) (elems doc))"
    by (rule sorted_wrt_filter) (rule elems_sorted)
  from Cons have rest: "sorted_wrt (<)
       (concat (map (\<lambda>row. filter (\<lambda>p. is_descendant row p \<and> M p) (elems doc))
                  (map (\<lambda>j. q @ [j]) js)))"
    by simp
  from Cons.prems have "\<forall>j'\<in>set js. j < j'"
    by simp
  then have cross: "\<forall>x\<in>set (filter (\<lambda>p. is_descendant (q @ [j]) p \<and> M p) (elems doc)).
      \<forall>y\<in>set (concat (map (\<lambda>row. filter (\<lambda>p. is_descendant row p \<and> M p) (elems doc))
                  (map (\<lambda>j. q @ [j]) js))). x < y"
    by (auto intro: descendants_of_siblings_less)
  from here rest cross show ?case
    by (simp add: sorted_wrt_append)
qed

lemma block_rows:
  "r \<noteq> [] \<Longrightarrow>
     \<exists>js. sorted_wrt (<) js \<and> block doc r = map (\<lambda>j. butlast r @ [j]) js"
proof -
  assume r: "r \<noteq> []"
  let ?P = "\<lambda>r. \<not> classList_contains doc r ''mergedtoprow''"
  let ?f = "\<lambda>j. butlast r @ [j]"
  have "\<exists>xs. sorted_wrt (<) xs \<and> (\<forall>x\<in>set xs. last r < x) \<and> followingSiblings doc r = map ?f xs"
  proof (cases "node_at doc (butlast r)")
    case None
    with r show ?thesis
      by (intro exI [of _ "[]"]) (simp add: followingSiblings_def)
  next
    case (Some n)
    show ?thesis
    proof (cases n)
      case (Text s)
      with Some r show ?thesis
        by (intro exI [of _ "[]"]) (simp add: followingSiblings_def)
    next
      case (Element t cl ps ks)
      with Some r show ?thesis
        by (intro exI [of _ "filter (\<lambda>j. is_element (ks ! j)) [Suc (last r)..<length ks]"])
           (auto simp: followingSiblings_def sorted_wrt_filter)
    qed
  qed
  then obtain xs where xs: "sorted_wrt (<) xs" "\<forall>x\<in>set xs. last r < x"
    "followingSiblings doc r = map ?f xs"
    by blast
  let ?ys = "takeWhile (?P \<circ> ?f) xs"
  have "sorted_wrt (<) (last r # ?ys)"
    using xs(1,2) by (auto dest: set_takeWhileD)
  moreover have "block doc r = map ?f (last r # ?ys)"
    using r xs(3) by (simp add: block_def takeWhile_map)
  ultimately show ?thesis
    by blast
qed

lemma block_cells_sorted:
  "sorted_wrt (<)
     (concat (map (\<lambda>row. querySelectorAll_in doc row sel) (block doc r)))"
proof (cases "r = []")
  case True
  then have "block doc r = [[]]"
    by (simp add: block_def followingSiblings_def)
  then show ?thesis
    by (simp add: querySelectorAll_in_def sorted_wrt_filter elems_sorted)
next
  case False
  from block_rows [OF False] obtain js where "sorted_wrt (<) js"
    and "block doc r = map (\<lambda>j. butlast r @ [j]) js"
    by blast
  with sibling_cells_sorted [of js "matches doc sel" doc "butlast r"] show ?thesis
    by (simp add: querySelectorAll_in_def)
qed

lemma strict_sorted_subset_subseq:
  fixes xs ys :: "'a::linorder list"
  assumes "sorted_wrt (<) xs" "sorted_wrt (<) ys" "set xs \<subseteq> set ys"
  shows "subseq xs ys"
proof -
  have "filter (\<lambda>y. y \<in> set xs) ys = xs"
  proof (rule sorted_distinct_set_unique)
    have "sorted_wrt (<) (filter (\<lambda>y. y \<in> set xs) ys)"
      using assms(2) by (rule sorted_wrt_filter)
    then show "sorted (filter (\<lambda>y. y \<in> set xs) ys)" "distinct (filter (\<lambda>y. y \<in> set xs) ys)"
      by (simp_all add: strict_sorted_iff)
    show "sorted xs" "distinct xs"
      using assms(1) by (simp_all add: strict_sorted_iff)
    show "set (filter (\<lambda>y. y \<in> set xs) ys) = set xs"
      using assms(3) by auto
  qed
  then show ?thesis
    by (metis subseq_filter_left)
qed

lemma block_cells_document_order:
  "subseq (concat (map (\<lambda>row. querySelectorAll_in doc row sel) (block doc r))) (elems doc)"
proof (rule strict_sorted_subset_subseq)
  show "sorted_wrt (<) (concat (map (\<lambda>row. querySelectorAll_in doc row sel) (block doc r)))"
    by (rule block_cells_sorted)
  show "sorted_wrt (<) (elems doc)"
    by (rule elems_sorted)
  show "set (concat (map (\<lambda>row. querySelectorAll_in doc row sel) (block doc r))) \<subseteq> set (elems doc)"
    by (auto simp: querySelectorAll_in_def)
qed

section \<open>Properties of the labelled-value extraction\<close>

text \<open>
  C4. For every document and label, the rows collected by \<open>getValueByLabel\<close> are the
  blocks of the header cells (\<open>.mergedtoprow th\<close>) whose text contains the label, in
  the order of those cells: each block is the header's parent row followed by its
  following sibling elements up to, and not including, the first of class
  \<open>mergedtoprow\<close>, or up to the last sibling when there is none. The header row is
  always in its block.
\<close>

theorem labelRows_blocks:
  "labelRows doc label =
     concat (map (\<lambda>th. block doc (parentElement th))
               (filter (\<lambda>th. includes_str (textContent_at doc th) label) (headerCells doc)))"
  by (simp add: labelRows_def foldl_append_concat block_def nextRows_followingSiblings
        map_map comp_def)

theorem labelRows_blocks_witness:
  "labelRows city_page ''Population'' =
     concat (map (\<lambda>th. block city_page (parentElement th))
               (filter (\<lambda>th. includes_str (textContent_at city_page th) ''Population'')
                  (headerCells city_page))) \<and>
   labelRows city_page ''Population'' = [[0, 4], [0, 5], [0, 6], [0, 7]] \<and>
   block city_page [0, 1] = [[0, 1], [0, 3]]"
proof -
  have a: "labelRows city_page ''Population'' = [[0, 4], [0, 5], [0, 6], [0, 7]]"
    by code_simp
  have b: "block city_page [0, 1] = [[0, 1], [0, 3]]"
    by code_simp
  from labelRows_blocks [of city_page "''Population''"] a b show ?thesis
    by blast
qed

text \<open>
  C7. For every document and value pattern, if the label occurs in the text of no
  header cell of the document, \<open>getValueByLabel\<close> returns absent.
\<close>

theorem label_absent:
  assumes "\<forall>th\<in>set (headerCells doc). \<not> includes_str (textContent_at doc th) label"
  shows "getValueByLabel fmt doc label regex = None"
proof -
  from assms have "filter (\<lambda>th. includes_str (textContent_at doc th) label) (headerCells doc) = []"
    by (simp add: filter_empty_conv)
  then have "labelRows doc label = []"
    by (simp add: labelRows_def)
  then have "labelCells doc label = []"
    by (simp add: labelCells_def)
  then show ?thesis
    by (simp add: getValueByLabel_def)
qed

theorem label_absent_witness:
  "list_all (\<lambda>th. \<not> includes_str (textContent_at city_page th) ''Elevation'')
     (headerCells city_page) \<and>
   getValueByLabel example_fmt city_page ''Elevation'' (regex_test areaRegex) = None"
proof -
  have h: "\<forall>th\<in>set (headerCells city_page). \<not> includes_str (textContent_at city_page th) ''Elevation''"
    by code_simp
  from h label_absent [OF h] show ?thesis
    by (simp add: list_all_iff)
qed

text \<open>
  C3, as amended. For every document, label and value pattern: the cells scanned are the
  \<open>td\<close> descendants of the rows of the blocks, block after block in the order of the
  matching header cells; the cells of one block are in document order, while across
  blocks a cell can come again, or before a cell that precedes it in the document. When
  that sequence is \<open>pre @ td # post\<close> with \<open>td\<close> its first cell whose trimmed text
  matches the pattern, the returned value is computed from the text of \<open>td\<close> alone,
  whatever cells follow it.
\<close>

theorem first_cell_of_flattened_blocks:
  assumes cells: "labelCells doc label = pre @ td # post"
    and pre: "\<forall>c\<in>set pre. \<not> regex (trim (textContent_at doc c))"
    and td: "regex (trim (textContent_at doc td))"
  shows "labelCells doc label =
           concat (map (\<lambda>th. concat (map (\<lambda>row. querySelectorAll_in doc row (Sel [Tag ''td'']))
                                      (block doc (parentElement th))))
                     (filter (\<lambda>th. includes_str (textContent_at doc th) label) (headerCells doc))) \<and>
         (\<forall>r. subseq (concat (map (\<lambda>row. querySelectorAll_in doc row (Sel [Tag ''td'']))
                                 (block doc r)))
                (elems doc)) \<and>
         getValueByLabel fmt doc label regex =
           (if trim (textContent_at doc td) = [] then None
            else Some (numberToString fmt (parseFloat (remove_commas (trim (textContent_at doc td))))))"
proof -
  have rows: "labelRows doc label =
     concat (map (\<lambda>th. block doc (parentElement th))
               (filter (\<lambda>th. includes_str (textContent_at doc th) label) (headerCells doc)))"
    by (simp add: labelRows_def foldl_append_concat block_def nextRows_followingSiblings
          map_map comp_def)
  have flat: "labelCells doc label =
           concat (map (\<lambda>th. concat (map (\<lambda>row. querySelectorAll_in doc row (Sel [Tag ''td'']))
                                      (block doc (parentElement th))))
                     (filter (\<lambda>th. includes_str (textContent_at doc th) label) (headerCells doc)))"
    unfolding labelCells_def rows by (simp add: concat_map_concat map_map comp_def)
  have "find (\<lambda>c. regex (trim (textContent_at doc c))) (labelCells doc label) = Some td"
    using cells pre td by (rule find_first_split)
  then have val: "getValueByLabel fmt doc label regex =
           (if trim (textContent_at doc td) = [] then None
            else Some (numberToString fmt (parseFloat (remove_commas (trim (textContent_at doc td))))))"
    by (simp add: getValueByLabel_find)
  from flat block_cells_document_order val show ?thesis
    by blast
qed

theorem first_cell_of_flattened_blocks_witness:
  "labelCells city_page ''Population'' = [[0, 5, 1]] @ [0, 6, 1] # [[0, 7, 1]] \<and>
   list_all (\<lambda>c. \<not> regex_test populationRegex (trim (textContent_at city_page c))) [[0, 5, 1]] \<and>
   regex_test populationRegex (trim (textContent_at city_page [0, 6, 1])) \<and>
   regex_test populationRegex (trim (textContent_at city_page [0, 7, 1])) \<and>
   subseq (concat (map (\<lambda>row. querySelectorAll_in city_page row (Sel [Tag ''td'']))
                     (block city_page [0, 4])))
     (elems city_page) \<and>
   getValueByLabel example_fmt city_page ''Population'' (regex_test populationRegex) =
     Some ''83166711''"
proof -
  have cells: "labelCells city_page ''Population'' = [[0, 5, 1]] @ [0, 6, 1] # [[0, 7, 1]]"
    by code_simp
  have pre: "\<forall>c\<in>set [[0, 5, 1]]. \<not> regex_test populationRegex (trim (textContent_at city_page c))"
    by code_simp
  have td: "regex_test populationRegex (trim (textContent_at city_page [0, 6, 1]))"
    by code_simp
  have later: "regex_test populationRegex (trim (textContent_at city_page [0, 7, 1]))"
    by code_simp
  have val: "(if trim (textContent_at city_page [0, 6, 1]) = [] then None
       else Some (numberToString example_fmt
              (parseFloat (remove_commas (trim (textContent_at city_page [0, 6, 1])))))) =
       Some ''83166711''"
    by code_simp
  note inst = first_cell_of_flattened_blocks [OF cells pre td, of example_fmt]
  have res: "getValueByLabel example_fmt city_page ''Population'' (regex_test populationRegex) =
     Some ''83166711''"
    using inst val by simp
  have ord: "subseq (concat (map (\<lambda>row. querySelectorAll_in city_page row (Sel [Tag ''td'']))
                     (block city_page [0, 4])))
     (elems city_page)"
    using inst by blast
  have pre': "list_all (\<lambda>c. \<not> regex_test populationRegex (trim (textContent_at city_page c))) [[0, 5, 1]]"
    using pre by (simp only: list_all_iff)
  from cells pre' td later ord res show ?thesis
    by (intro conjI)
qed

text \<open>
  C3, as stated, fails: on \<open>nested_page\<close> both header cells match \<open>Area\<close>, the block of
  the inner row comes first, and the flattened cells are not in document order: the
  inner cell \<open>7 km2\<close> is scanned first, and again last. Among the collected cells the
  first in document order that matches the pattern is \<open>5 km2\<close>, and the value returned
  is \<open>7\<close>.
\<close>

theorem nested_blocks_counterexample:
  "labelCells nested_page ''Area'' = [[0, 0, 1, 0, 0, 1], [0, 0, 0], [0, 0, 1], [0, 0, 1, 0, 0, 1]] \<and>
   \<not> subseq (labelCells nested_page ''Area'') (elems nested_page) \<and>
   find (\<lambda>td. regex_test areaRegex (trim (textContent_at nested_page td)))
     (filter (\<lambda>p. p \<in> set (labelCells nested_page ''Area'')) (elems nested_page)) = Some [0, 0, 0] \<and>
   trim (textContent_at nested_page [0, 0, 0]) = ''5 km2'' \<and>
   getValueByLabel example_fmt nested_page ''Area'' (regex_test areaRegex) = Some ''7''"
  by code_simp

text \<open>The three cell texts of the specification, read by \<open>parseFloat\<close> and printed.\<close>

lemma parse_area_example:
  "numberToString fmt (parseFloat (remove_commas ''357,021 km2 (137,847 sq mi)'')) = ''357021''"
  by code_simp

lemma parse_population_example:
  "numberToString fmt (parseFloat (remove_commas ''83,166,711 (2021 estimate)'')) = ''83166711''"
  by code_simp

lemma parse_plain_example:
  "numberToString fmt (parseFloat (remove_commas ''1,234,567'')) = ''1234567''"
  by code_simp

text \<open>
  C5. When the first cell matching the area pattern has the trimmed text
  \<open>357,021 km2 (137,847 sq mi)\<close>, \<open>getArea\<close> returns \<open>357021\<close>; when the first cell
  matching the population pattern has the trimmed text \<open>83,166,711 (2021 estimate)\<close>,
  \<open>getPopulation\<close> returns \<open>83166711\<close>; when it has the text \<open>1,234,567\<close>,
  \<open>getPopulation\<close> returns \<open>1234567\<close>.
\<close>

theorem spec_examples:
  "(find (\<lambda>td. regex_test areaRegex (trim (textContent_at d1 td))) (labelCells d1 ''Area'') = Some c1 \<and>
    trim (textContent_at d1 c1) = ''357,021 km2 (137,847 sq mi)''
      \<longrightarrow> getArea fmt d1 = Some ''357021'') \<and>
   (find (\<lambda>td. regex_test populationRegex (trim (textContent_at d2 td))) (labelCells d2 ''Population'') = Some c2 \<and>
    trim (textContent_at d2 c2) = ''83,166,711 (2021 estimate)''
      \<longrightarrow> getPopulation fmt d2 = Some ''83166711'') \<and>
   (find (\<lambda>td. regex_test populationRegex (trim (textContent_at d3 td))) (labelCells d3 ''Population'') = Some c3 \<and>
    trim (textContent_at d3 c3) = ''1,234,567''
      \<longrightarrow> getPopulation fmt d3 = Some ''1234567'')"
  by (simp add: getArea_def getPopulation_def getValueByLabel_find
        parse_area_example parse_population_example parse_plain_example)

theorem spec_examples_witness:
  "find (\<lambda>td. regex_test areaRegex (trim (textContent_at city_page td))) (labelCells city_page ''Area'')
     = Some [0, 3, 1] \<and>
   trim (textContent_at city_page [0, 3, 1]) = ''357,021 km2 (137,847 sq mi)'' \<and>
   getArea example_fmt city_page = Some ''357021'' \<and>
   find (\<lambda>td. regex_test populationRegex (trim (textContent_at city_page td)))
     (labelCells city_page ''Population'') = Some [0, 6, 1] \<and>
   trim (textContent_at city_page [0, 6, 1]) = ''83,166,711 (2021 estimate)'' \<and>
   getPopulation example_fmt city_page = Some ''83166711'' \<and>
   find (\<lambda>td. regex_test populationRegex (trim (textContent_at town_page td)))
     (labelCells town_page ''Population'') = Some [0, 0, 1] \<and>
   trim (textContent_at town_page [0, 0, 1]) = ''1,234,567'' \<and>
   getPopulation example_fmt town_page = Some ''1234567''"
proof -
  have a1: "find (\<lambda>td. regex_test areaRegex (trim (textContent_at city_page td)))
              (labelCells city_page ''Area'') = Some [0, 3, 1]"
    by code_simp
  have a2: "trim (textContent_at city_page [0, 3, 1]) = ''357,021 km2 (137,847 sq mi)''"
    by code_simp
  have b1: "find (\<lambda>td. regex_test populationRegex (trim (textContent_at city_page td)))
              (labelCells city_page ''Population'') = Some [0, 6, 1]"
    by code_simp
  have b2: "trim (textContent_at city_page [0, 6, 1]) = ''83,166,711 (2021 estimate)''"
    by code_simp
  have c1: "find (\<lambda>td. regex_test populationRegex (trim (textContent_at town_page td)))
              (labelCells town_page ''Population'') = Some [0, 0, 1]"
    by code_simp
  have c2: "trim (textContent_at town_page [0, 0, 1]) = ''1,234,567''"
    by code_simp
  from spec_examples [of city_page "[0, 3, 1]" example_fmt city_page "[0, 6, 1]" town_page "[0, 0, 1]"]
    a1 a2 b1 b2 c1 c2
  show ?thesis
    by blast
qed

text \<open>
  C1. The claim is that a first matching cell whose text does not parse as a number
  yields absent. On \<open>dots_page\<close> the only population cell has the text \<open>...\<close>: it
  matches the population pattern, \<open>parseFloat\<close> gives \<open>NaN\<close>, and the value returned is
  the string \<open>NaN\<close>.
\<close>

theorem dots_population_is_NaN:
  "labelCells dots_page ''Population'' = [[0, 1, 1]] \<and>
   trim (textContent_at dots_page [0, 1, 1]) = ''...'' \<and>
   regex_test populationRegex ''...'' \<and>
   parseFloat (remove_commas ''...'') = NaN \<and>
   getPopulation example_fmt dots_page = Some ''NaN''"
  by code_simp

section \<open>Properties of the capital link\<close>

lemma find_map_not_None:
  "(case find (\<lambda>l. l \<noteq> None) (map f xs) of Some l \<Rightarrow> l | None \<Rightarrow> None) =
     (case find (\<lambda>x. f x \<noteq> None) xs of None \<Rightarrow> None | Some x \<Rightarrow> f x)"
  by (induction xs) auto

lemma capitalCityLink_find:
  "capitalCityLink doc =
     (case find (\<lambda>tr. rowLink doc tr \<noteq> None) (capitalRows doc) of
        None \<Rightarrow> None
      | Some tr \<Rightarrow> rowLink doc tr)"
  unfolding capitalCityLink_def by (rule find_map_not_None)

text \<open>
  C2, as amended. For every country page, every row of \<open>.infobox.ib-country.vcard tr\<close>
  whose text contains \<open>Capital\<close> is mapped to its first \<open>.infobox-data a\<close> anchor, and
  the result is the anchor of the first such row, in document order, that has one. The
  result is null exactly when none of these rows has such an anchor, in particular when
  no row contains \<open>Capital\<close>; when the first row that contains \<open>Capital\<close> has an
  anchor, the result is that anchor.
\<close>

theorem capitalCity_first_linked_row:
  "capitalCityLink doc =
     (case find (\<lambda>tr. rowLink doc tr \<noteq> None) (capitalRows doc) of
        None \<Rightarrow> None
      | Some tr \<Rightarrow> rowLink doc tr) \<and>
   (capitalCity doc = None \<longleftrightarrow> (\<forall>tr\<in>set (capitalRows doc). rowLink doc tr = None)) \<and>
   (capitalRows doc = [] \<longrightarrow> capitalCity doc = None) \<and>
   (capitalRows doc = tr # rest \<and> rowLink doc tr = Some a \<longrightarrow>
      capitalCity doc =
        Some \<lparr>cityName = property ''innerText'' doc a, cityUrl = property ''href'' doc a,
              City.country = None\<rparr>)"
proof -
  have none: "capitalCityLink doc = None \<longleftrightarrow> (\<forall>tr\<in>set (capitalRows doc). rowLink doc tr = None)"
    unfolding capitalCityLink_find
    by (auto simp: find_None_iff split: option.splits dest: find_Some_iff [THEN iffD1])
  have city: "capitalCity doc = None \<longleftrightarrow> capitalCityLink doc = None"
    by (simp add: capitalCity_def split: option.splits)
  show ?thesis
    using none city capitalCityLink_find [of doc]
    by (auto simp: capitalCity_def split: option.splits)
qed

theorem capitalCity_first_linked_row_witness:
  "capitalRows germany_page = [0, 0] # [] \<and>
   rowLink germany_page [0, 0] = Some [0, 0, 1, 0] \<and>
   capitalCity germany_page =
     Some \<lparr>cityName = ''Berlin'', cityUrl = ''u:berlin'', City.country = None\<rparr> \<and>
   capitalRows atlantis_page = [] \<and>
   capitalCity atlantis_page = None"
proof -
  have rows: "capitalRows germany_page = [0, 0] # []"
    by code_simp
  have link: "rowLink germany_page [0, 0] = Some [0, 0, 1, 0]"
    by code_simp
  have nm: "property ''innerText'' germany_page [0, 0, 1, 0] = ''Berlin''"
    by code_simp
  have hr: "property ''href'' germany_page [0, 0, 1, 0] = ''u:berlin''"
    by code_simp
  have none: "capitalRows atlantis_page = []"
    by code_simp
  from capitalCity_first_linked_row [of germany_page "[0, 0]" "[]" "[0, 0, 1, 0]"] rows link
  have "capitalCity germany_page =
     Some \<lparr>cityName = property ''innerText'' germany_page [0, 0, 1, 0],
           cityUrl = property ''href'' germany_page [0, 0, 1, 0], City.country = None\<rparr>"
    by blast
  then have g: "capitalCity germany_page =
     Some \<lparr>cityName = ''Berlin'', cityUrl = ''u:berlin'', City.country = None\<rparr>"
    by (simp only: nm hr)
  from capitalCity_first_linked_row [of atlantis_page] none
  have a: "capitalCity atlantis_page = None"
    by blast
  from rows link g none a show ?thesis
    by (intro conjI)
qed

text \<open>
  C2, as stated, fails: on \<open>two_capitals_page\<close> the first row that contains
  \<open>Capital\<close> has no anchor, and the result is the anchor of the second row, not null.
\<close>

theorem two_capital_rows_counterexample:
  "capitalRows two_capitals_page = [[0, 0], [0, 1]] \<and>
   rowLink two_capitals_page [0, 0] = None \<and>
   capitalCityLink two_capitals_page = Some [0, 1, 1, 0] \<and>
   capitalCity two_capitals_page =
     Some \<lparr>cityName = ''Bern'', cityUrl = ''u:bern'', City.country = None\<rparr>"
  by code_simp

section \<open>Properties of the traversal\<close>

text \<open>
  C9. When the page is null, \<open>scrapeCountries\<close> and \<open>scrapeCityDetails\<close> throw
  \<open>Page is not initialized\<close>: there is no output, no navigation is attempted and the
  scraper is left as it was.
\<close>

theorem uninitialized_throws:
  "page s = None \<Longrightarrow>
     scrapeCountries fmt web s = (Inl PageNotInitialized, s) \<and>
     scrapeCityDetails fmt web s capital c = (Inl PageNotInitialized, s)"
  by (simp add: scrapeCountries_def scrapeCityDetails_def)

theorem uninitialized_throws_witness:
  "page new_scraper = None \<and>
   scrapeCountries example_fmt example_web new_scraper = (Inl PageNotInitialized, new_scraper) \<and>
   scrapeCityDetails example_fmt example_web new_scraper None
       \<lparr>countryName = ''Germany'', countryUrl = ''u:germany''\<rparr>
     = (Inl PageNotInitialized, new_scraper)"
proof -
  have h: "page new_scraper = None"
    by (simp add: new_scraper_def)
  from h uninitialized_throws [OF h] show ?thesis
    by blast
qed

lemma goto_eq:
  "page s \<noteq> None \<Longrightarrow>
     goto web s u =
       (case web u of
          None \<Rightarrow> (Inl (NavigationFailed u), s\<lparr>page := Some (error_page u)\<rparr>)
        | Some doc \<Rightarrow> (Inr (), s\<lparr>page := Some doc\<rparr>))"
  by (auto simp: goto_def split: option.splits)

lemma scrapeCityDetails_eq:
  "page s \<noteq> None \<Longrightarrow>
     scrapeCityDetails fmt web s (Some city) c =
       (case web (cityUrl city) of
          None \<Rightarrow> (Inl (NavigationFailed (cityUrl city)), s\<lparr>page := Some (error_page (cityUrl city))\<rparr>)
        | Some doc \<Rightarrow>
            (Inr (Some [\<lparr>name = cityName city, url = cityUrl city,
                          country = Some (countryName c),
                          area = getArea fmt doc, population = getPopulation fmt doc,
                          flagIconPath = map_option (property ''src'' doc) (flagIcon doc)\<rparr>]),
             s\<lparr>page := Some doc\<rparr>))"
  by (auto simp: scrapeCityDetails_def goto_eq capitalCityDetails_def split: option.splits)

lemma scrapeCityDetails_null:
  "page s \<noteq> None \<Longrightarrow> scrapeCityDetails fmt web s None c = (Inr None, s)"
  by (simp add: scrapeCityDetails_def)

text \<open>
  C10. Whenever \<open>scrapeCityDetails\<close> returns, it returns null (only for a null
  capital) or a list of exactly one record, which carries the capital's name and URL and
  the country's name; and for a capital whose page loads, the record is emitted also
  when area, population and flag are all absent.
\<close>

theorem scrapeCityDetails_one_record:
  "(scrapeCityDetails fmt web s capital c = (Inr r, s') \<longrightarrow>
      (capital = None \<and> r = None) \<or>
      (\<exists>city x. capital = Some city \<and> r = Some [x] \<and> name x = cityName city \<and>
         url x = cityUrl city \<and> country x = Some (countryName c))) \<and>
   (page s \<noteq> None \<and> web (cityUrl city) = Some doc \<and>
    getArea fmt doc = None \<and> getPopulation fmt doc = None \<and> flagIcon doc = None \<longrightarrow>
      scrapeCityDetails fmt web s (Some city) c =
        (Inr (Some [\<lparr>name = cityName city, url = cityUrl city,
                      country = Some (countryName c), area = None, population = None,
                      flagIconPath = None\<rparr>]),
         s\<lparr>page := Some doc\<rparr>))"
proof (intro conjI impI)
  assume res: "scrapeCityDetails fmt web s capital c = (Inr r, s')"
  then have pg: "page s \<noteq> None"
    by (auto simp: scrapeCityDetails_def split: if_splits)
  show "(capital = None \<and> r = None) \<or>
      (\<exists>city x. capital = Some city \<and> r = Some [x] \<and> name x = cityName city \<and>
         url x = cityUrl city \<and> country x = Some (countryName c))"
  proof (cases capital)
    case None
    with res pg show ?thesis
      by (simp add: scrapeCityDetails_null)
  next
    case (Some city)
    with res pg show ?thesis
      by (auto simp: scrapeCityDetails_eq split: option.splits)
  qed
next
  assume "page s \<noteq> None \<and> web (cityUrl city) = Some doc \<and>
    getArea fmt doc = None \<and> getPopulation fmt doc = None \<and> flagIcon doc = None"
  then show "scrapeCityDetails fmt web s (Some city) c =
        (Inr (Some [\<lparr>name = cityName city, url = cityUrl city,
                      country = Some (countryName c), area = None, population = None,
                      flagIconPath = None\<rparr>]),
         s\<lparr>page := Some doc\<rparr>)"
    by (simp add: scrapeCityDetails_eq)
qed

theorem scrapeCityDetails_one_record_witness:
  "page ready_scraper \<noteq> None \<and>
   example_web ''u:blank'' = Some blank_page \<and>
   getArea example_fmt blank_page = None \<and>
   getPopulation example_fmt blank_page = None \<and>
   flagIcon blank_page = None \<and>
   scrapeCityDetails example_fmt example_web ready_scraper
       (Some \<lparr>cityName = ''Nowhere'', cityUrl = ''u:blank'', City.country = None\<rparr>)
       \<lparr>countryName = ''Atlantis'', countryUrl = ''u:atlantis''\<rparr> =
     (Inr (Some [\<lparr>name = ''Nowhere'', url = ''u:blank'', country = Some ''Atlantis'',
                   area = None, population = None, flagIconPath = None\<rparr>]),
      ready_scraper\<lparr>page := Some blank_page\<rparr>)"
proof -
  have pg: "page ready_scraper \<noteq> None"
    by (simp add: ready_scraper_def)
  have w: "example_web (cityUrl \<lparr>cityName = ''Nowhere'', cityUrl = ''u:blank'', City.country = None\<rparr>)
             = Some blank_page"
    by code_simp
  have a: "getArea example_fmt blank_page = None"
    by code_simp
  have p: "getPopulation example_fmt blank_page = None"
    by code_simp
  have f: "flagIcon blank_page = None"
    by code_simp
  from scrapeCityDetails_one_record
         [of example_fmt example_web ready_scraper _ _ _ _
             "\<lparr>cityName = ''Nowhere'', cityUrl = ''u:blank'', City.country = None\<rparr>" blank_page]
    pg w a p f
  show ?thesis
    by simp
qed

lemma loop_output:
  "page s \<noteq> None \<Longrightarrow> countries_loop fmt web cs acc s = (Inr out, s') \<Longrightarrow>
     \<exists>new. out = acc @ new \<and>
       map country new =
         map (\<lambda>c. Some (countryName c))
           (filter (\<lambda>c. case web (countryUrl c) of None \<Rightarrow> False
                         | Some d \<Rightarrow> capitalCity d \<noteq> None) cs)"
proof (induction cs arbitrary: acc s)
  case Nil
  then show ?case by simp
next
  case (Cons c cs)
  from Cons.prems obtain d where d: "web (countryUrl c) = Some d"
    by (auto simp: goto_eq split: option.splits)
  let ?s1 = "s\<lparr>page := Some d\<rparr>"
  have pg1: "page ?s1 \<noteq> None" by simp
  show ?case
  proof (cases "capitalCity d")
    case None
    with Cons.prems d have "countries_loop fmt web cs acc ?s1 = (Inr out, s')"
      by (simp add: goto_eq)
    from Cons.IH [OF pg1 this] d None show ?thesis
      by simp
  next
    case (Some city)
    with Cons.prems d obtain d2 where d2: "web (cityUrl city) = Some d2"
      by (auto simp: goto_eq scrapeCityDetails_eq split: option.splits)
    let ?x = "\<lparr>name = cityName city, url = cityUrl city,
                          country = Some (countryName c),
                          area = getArea fmt d2, population = getPopulation fmt d2,
                          flagIconPath = map_option (property ''src'' d2) (flagIcon d2)\<rparr>"
    let ?s2 = "?s1\<lparr>page := Some d2\<rparr>"
    have pg2: "page ?s2 \<noteq> None" by simp
    from Cons.prems d Some d2 have "countries_loop fmt web cs (acc @ [?x]) ?s2 = (Inr out, s')"
      by (simp add: goto_eq scrapeCityDetails_eq)
    from Cons.IH [OF pg2 this] obtain new where "out = (acc @ [?x]) @ new"
      and "map country new =
         map (\<lambda>c. Some (countryName c))
           (filter (\<lambda>c. case web (countryUrl c) of None \<Rightarrow> False
                         | Some d \<Rightarrow> capitalCity d \<noteq> None) cs)"
      by blast
    with d Some show ?thesis
      by (intro exI [of _ "?x # new"]) simp
  qed
qed

lemma loop_succeeds:
  "page s \<noteq> None \<Longrightarrow>
   list_all (\<lambda>c. case web (countryUrl c) of None \<Rightarrow> False
                 | Some d \<Rightarrow> (case capitalCity d of None \<Rightarrow> True
                              | Some city \<Rightarrow> web (cityUrl city) \<noteq> None)) cs \<Longrightarrow>
   \<exists>out s'. countries_loop fmt web cs acc s = (Inr out, s')"
proof (induction cs arbitrary: acc s)
  case Nil
  then show ?case by simp
next
  case (Cons c cs)
  then show ?case
    by (auto simp: goto_eq scrapeCityDetails_eq split: option.splits)
qed

text \<open>
  C6. Whenever \<open>scrapeCountries\<close> returns a list, the list is no longer than the list
  of countries read from the list page, and its records are, in order, those of the
  countries whose page yields a capital link: a country without one adds nothing. When
  every country page loads, and every capital page that is linked loads, the run returns
  a list: a country without a capital link raises no error.
\<close>

theorem scrapeCountries_skips:
  "(scrapeCountries fmt web s = (Inr out, s') \<longrightarrow>
      (\<exists>doc. page s = Some doc \<and> length out \<le> length (countries doc) \<and>
         map country out =
           map (\<lambda>c. Some (countryName c))
             (filter (\<lambda>c. case web (countryUrl c) of None \<Rightarrow> False
                           | Some d \<Rightarrow> capitalCity d \<noteq> None) (countries doc)))) \<and>
   (page s = Some doc \<and>
    list_all (\<lambda>c. case web (countryUrl c) of None \<Rightarrow> False
                 | Some d \<Rightarrow> (case capitalCity d of None \<Rightarrow> True
                              | Some city \<Rightarrow> web (cityUrl city) \<noteq> None)) (countries doc) \<longrightarrow>
      (\<exists>out s'. scrapeCountries fmt web s = (Inr out, s')))"
proof (intro conjI impI)
  assume res: "scrapeCountries fmt web s = (Inr out, s')"
  then obtain d where d: "page s = Some d"
    and loop: "countries_loop fmt web (countries d) [] s = (Inr out, s')"
    by (auto simp: scrapeCountries_def split: option.splits)
  from d have "page s \<noteq> None" by simp
  from loop_output [OF this loop]
  have m: "map country out =
           map (\<lambda>c. Some (countryName c))
             (filter (\<lambda>c. case web (countryUrl c) of None \<Rightarrow> False
                           | Some d \<Rightarrow> capitalCity d \<noteq> None) (countries d))"
    by simp
  from arg_cong [OF m, of length] have "length out \<le> length (countries d)"
    by simp
  with d m show "\<exists>doc. page s = Some doc \<and> length out \<le> length (countries doc) \<and>
         map country out =
           map (\<lambda>c. Some (countryName c))
             (filter (\<lambda>c. case web (countryUrl c) of None \<Rightarrow> False
                           | Some d \<Rightarrow> capitalCity d \<noteq> None) (countries doc))"
    by simp
next
  assume "page s = Some doc \<and>
    list_all (\<lambda>c. case web (countryUrl c) of None \<Rightarrow> False
                 | Some d \<Rightarrow> (case capitalCity d of None \<Rightarrow> True
                              | Some city \<Rightarrow> web (cityUrl city) \<noteq> None)) (countries doc)"
  then show "\<exists>out s'. scrapeCountries fmt web s = (Inr out, s')"
    using loop_succeeds [of s web "countries doc" fmt "[]"]
    by (simp add: scrapeCountries_def)
qed

theorem scrapeCountries_skips_witness:
  "page ready_scraper = Some list_page \<and>
   list_all (\<lambda>c. case example_web (countryUrl c) of None \<Rightarrow> False
                 | Some d \<Rightarrow> (case capitalCity d of None \<Rightarrow> True
                              | Some city \<Rightarrow> example_web (cityUrl city) \<noteq> None))
     (countries list_page) \<and>
   length (countries list_page) = 2 \<and>
   (\<exists>out s'. scrapeCountries example_fmt example_web ready_scraper = (Inr out, s')) \<and>
   scrapeCountries example_fmt example_web ready_scraper =
     (Inr [\<lparr>name = ''Berlin'', url = ''u:berlin'', country = Some ''Germany'',
             area = Some ''357021'', population = Some ''83166711'',
             flagIconPath = Some ''https://example.org/flag.png''\<rparr>],
      ready_scraper\<lparr>page := Some city_page\<rparr>) \<and>
   length [\<lparr>name = ''Berlin'', url = ''u:berlin'', country = Some ''Germany'',
             area = Some ''357021'', population = Some ''83166711'',
             flagIconPath = Some ''https://example.org/flag.png''\<rparr>]
     \<le> length (countries list_page)"
proof -
  have pg: "page ready_scraper = Some list_page"
    by (simp add: ready_scraper_def)
  have ok: "list_all (\<lambda>c. case example_web (countryUrl c) of None \<Rightarrow> False
                 | Some d \<Rightarrow> (case capitalCity d of None \<Rightarrow> True
                              | Some city \<Rightarrow> example_web (cityUrl city) \<noteq> None))
     (countries list_page)"
    by code_simp
  have n: "length (countries list_page) = 2"
    by code_simp
  have res: "scrapeCountries example_fmt example_web ready_scraper =
     (Inr [\<lparr>name = ''Berlin'', url = ''u:berlin'', country = Some ''Germany'',
             area = Some ''357021'', population = Some ''83166711'',
             flagIconPath = Some ''https://example.org/flag.png''\<rparr>],
      ready_scraper\<lparr>page := Some city_page\<rparr>)"
    by code_simp
  note inst = scrapeCountries_skips [of example_fmt example_web ready_scraper _ _ list_page]
  from inst pg ok have ex: "\<exists>out s'. scrapeCountries example_fmt example_web ready_scraper = (Inr out, s')"
    by blast
  from inst res pg have le: "length [\<lparr>name = ''Berlin'', url = ''u:berlin'', country = Some ''Germany'',
             area = Some ''357021'', population = Some ''83166711'',
             flagIconPath = Some ''https://example.org/flag.png''\<rparr>]
     \<le> length (countries list_page)"
    by (simp add: n)
  from pg ok n ex res le show ?thesis
    by (intro conjI)
qed






text \<open>
  \<open>scrapeCountries\<close> on its own reads the countries from the document the page shows:
  called again without \<open>init\<close>, it starts from the last capital's page, which lists no
  country.
\<close>

lemma scrapeCountries_reads_current_page:
  "fst (scrapeCountries example_fmt example_web
          (snd (scrapeCountries example_fmt example_web ready_scraper))) = Inr []"
  by code_simp

end
